theory Spec2Isabelle
  imports Main "HOL-Library.Word" "HOL-Library.Sublist"
begin

section \<open>The Garden Linux operating system config actuator\<close>

text \<open>
  A shallow embedding of \<^verbatim>\<open>pkg/controller/operatingsystemconfig/actuator.go\<close>.
  Go strings are byte sequences and are modelled as \<^typ>\<open>string\<close>; a \<^verbatim>\<open>[]byte\<close>
  made from a string is that string. A Go slice is a list, and the nil slice and the empty
  slice are both \<open>[]\<close>. A Go pointer that may be nil is an \<^typ>\<open>'a option\<close>. A Go
  function returning \<^verbatim>\<open>(v, error)\<close> returns a pair whose second component is
  \<open>None\<close> for the nil error: both components are always there, as in Go.
\<close>

subsection \<open>Data model\<close>

text \<open>A Go \<^verbatim>\<open>error\<close>, known by its message.\<close>

datatype error = Error (message: string)

text \<open>The types of \<^verbatim>\<open>extensionsv1alpha1\<close> the actuator reads and builds.\<close>

record FileContentSecretRef =
  Name :: string
  DataKey :: string

record FileContentInline =
  Encoding :: string
  Data :: string

record FileContentImageRef =
  Image :: string
  FilePathInImage :: string

record FileContent =
  SecretRef :: "FileContentSecretRef option"
  Inline :: "FileContentInline option"
  TransmitUnencoded :: "bool option"
  ImageRef :: "FileContentImageRef option"

record File =
  Path :: string
  Permissions :: "32 word option"
  Content :: FileContent

record DropIn =
  Name :: string
  Content :: string

record Unit =
  Name :: string
  Command :: "string option"
  Enable :: "bool option"
  Content :: "string option"
  DropIns :: "DropIn list"
  FilePaths :: "string list"

record InPlaceUpdateConfig =
  OSUpdateCommand :: "string option"
  OSUpdateCommandArgs :: "string list"

text \<open>
  \<^verbatim>\<open>OperatingSystemConfigPurpose\<close> is a Go string type, so a request can carry any
  string as its purpose; the library names two of them.
\<close>

definition OperatingSystemConfigPurposeProvision :: string where
  "OperatingSystemConfigPurposeProvision = ''provision''"

definition OperatingSystemConfigPurposeReconcile :: string where
  "OperatingSystemConfigPurposeReconcile = ''reconcile''"

record OperatingSystemConfigSpec =
  Type :: string
  ProviderConfig :: "string option"
  Purpose :: string
  Units :: "Unit list"
  Files :: "File list"
  OSVersion :: "string option"

record OperatingSystemConfig =
  Namespace :: string
  Spec :: OperatingSystemConfigSpec

text \<open>The configuration of the memory variant (package \<^verbatim>\<open>memoryone\<close>).\<close>

record OperatingSystemConfiguration =
  MemoryTopology :: "string option"
  SystemMemory :: "string option"

text \<open>
  What the actuator uses and \<^verbatim>\<open>actuator.go\<close> does not define is a parameter of
  the model, collected in one record:
  \<^item> the constants \<^verbatim>\<open>gardenlinux.ScriptLocation\<close>,
    \<^verbatim>\<open>gardenlinux.ScriptPermissions\<close> and
    \<^verbatim>\<open>memoryone.OSTypeMemoryOneGardenLinux\<close>;
  \<^item> the four package variables \<^verbatim>\<open>scriptContent...\<close>, holding what
    \<^verbatim>\<open>init\<close> read from the embedded templates (a failed read panics there, so
    every later call sees all four);
  \<^item> the library function \<^verbatim>\<open>filepath.Join\<close>, at two arguments;
  \<^item> the collaborators \<^verbatim>\<open>operatingsystemconfig.FilesToDiskScript\<close> (the context
    and the actuator's client, through which it resolves secret references, are part of
    it), \<^verbatim>\<open>operatingsystemconfig.UnitsToDiskScript\<close> and
    \<^verbatim>\<open>memoryone.Configuration\<close>.
\<close>

record env =
  ScriptLocation :: string
  ScriptPermissions :: "32 word"
  OSTypeMemoryOneGardenLinux :: string
  scriptContentInPlaceUpdate :: string
  scriptContentGFunctions :: string
  scriptContentKubeletCGroupDriver :: string
  scriptContentContainerdCGroupDriver :: string
  Join :: "string \<Rightarrow> string \<Rightarrow> string"
  FilesToDiskScript :: "string \<Rightarrow> File list \<Rightarrow> string \<times> error option"
  UnitsToDiskScript :: "Unit list \<Rightarrow> string"
  Configuration :: "OperatingSystemConfig \<Rightarrow> OperatingSystemConfiguration option \<times> error option"

subsection \<open>Provisioning: the composed script\<close>

text \<open>The single quote, which a string literal cannot end with.\<close>

definition quote :: char where
  "quote = CHR 0x27"

text \<open>
  \<^verbatim>\<open>fmt.Sprintf("systemctl enable '%s' && systemctl restart --no-block '%s'\n", name, name)\<close>:
  the verb \<^verbatim>\<open>%s\<close> writes the string as it is.
\<close>

definition enableAndRestart :: "string \<Rightarrow> string" where
  "enableAndRestart name =
     ''systemctl enable '' @ [quote] @ name @ [quote] @
     '' && systemctl restart --no-block '' @ [quote] @ name @ [quote] @ ''\<newline>''"

text \<open>The raw string literal before the rendered files (lines 74 to 88).\<close>

definition scriptPreamble :: string where
  \<open>scriptPreamble =
     ''#!/bin/bash\<newline>'' @
     ''if [ ! -s /etc/containerd/config.toml ]; then\<newline>'' @
     ''  mkdir -p /etc/containerd/\<newline>'' @
     ''  containerd config default > /etc/containerd/config.toml\<newline>'' @
     ''  chmod 0644 /etc/containerd/config.toml\<newline>'' @
     ''fi\<newline>'' @
     ''\<newline>'' @
     ''mkdir -p /etc/systemd/system/containerd.service.d\<newline>'' @
     ''cat <<EOF > /etc/systemd/system/containerd.service.d/11-exec_config.conf\<newline>'' @
     ''[Service]\<newline>'' @
     ''ExecStart=\<newline>'' @
     ''ExecStart=/usr/bin/containerd --config=/etc/containerd/config.toml\<newline>'' @
     ''EOF\<newline>'' @
     ''chmod 0644 /etc/systemd/system/containerd.service.d/11-exec_config.conf\<newline>''\<close>

text \<open>The raw string literal after the rendered units (lines 89 to 97).\<close>

definition scriptServices :: string where
  \<open>scriptServices =
     ''\<newline>'' @
     ''grep -sq "^nfsd$" /etc/modules || echo "nfsd" >>/etc/modules\<newline>'' @
     ''modprobe nfsd\<newline>'' @
     ''nslookup $(hostname) || systemctl restart systemd-networkd\<newline>'' @
     ''\<newline>'' @
     ''systemctl daemon-reload\<newline>'' @
     ''systemctl enable containerd && systemctl restart containerd\<newline>'' @
     ''systemctl enable docker && systemctl restart docker\<newline>''\<close>

text \<open>The value of \<^verbatim>\<open>script\<close> before the loop over the units.\<close>

definition scriptHead :: "string \<Rightarrow> string \<Rightarrow> string" where
  "scriptHead writeFilesToDiskScript writeUnitsToDiskScript =
     scriptPreamble @ writeFilesToDiskScript @ ''\<newline>'' @ writeUnitsToDiskScript @ scriptServices"

text \<open>
  The loop \<^verbatim>\<open>for _, unit := range osc.Spec.Units { script += ... }\<close>, with the
  script as accumulator.
\<close>

fun appendUnitCommands :: "string \<Rightarrow> Unit list \<Rightarrow> string" where
  "appendUnitCommands script [] = script"
| "appendUnitCommands script (unit # units) =
     appendUnitCommands (script @ enableAndRestart (Unit.Name unit)) units"

subsection \<open>Provisioning: the envelope of the memory variant\<close>

definition envelopeHeader :: string where
  \<open>envelopeHeader =
     ''Content-Type: multipart/mixed; boundary="==BOUNDARY=="\<newline>'' @
     ''MIME-Version: 1.0\<newline>'' @
     ''--==BOUNDARY==\<newline>'' @
     ''Content-Type: text/x-vsmp; section=vsmp''\<close>

definition envelopeScriptPart :: string where
  "envelopeScriptPart =
     ''\<newline>'' @
     ''--==BOUNDARY==\<newline>'' @
     ''Content-Type: text/x-shellscript\<newline>''"

definition envelopeFooter :: string where
  "envelopeFooter =
     ''\<newline>'' @
     ''--==BOUNDARY==''"

text \<open>
  The two conditional appends: the line is written when the configuration is not nil and
  its field is not nil.
\<close>

definition systemMemoryLine :: "OperatingSystemConfiguration option \<Rightarrow> string" where
  "systemMemoryLine config =
     (case config of
        None \<Rightarrow> ''''
      | Some c \<Rightarrow>
          (case SystemMemory c of
             None \<Rightarrow> ''''
           | Some v \<Rightarrow> ''\<newline>'' @ ''system_memory='' @ v))"

definition memTopologyLine :: "OperatingSystemConfiguration option \<Rightarrow> string" where
  "memTopologyLine config =
     (case config of
        None \<Rightarrow> ''''
      | Some c \<Rightarrow>
          (case MemoryTopology c of
             None \<Rightarrow> ''''
           | Some v \<Rightarrow> ''\<newline>'' @ ''mem_topology='' @ v))"

definition wrapIntoMemoryOneHeaderAndFooter ::
  "env \<Rightarrow> OperatingSystemConfig \<Rightarrow> string \<Rightarrow> string \<times> error option" where
  "wrapIntoMemoryOneHeaderAndFooter e osc inp =
     (case Configuration e osc of
        (config, Some err) \<Rightarrow> ('''', Some err)
      | (config, None) \<Rightarrow>
          (envelopeHeader @ systemMemoryLine config @ memTopologyLine config @
           envelopeScriptPart @ inp @ envelopeFooter, None))"

definition handleProvisionOSC :: "env \<Rightarrow> OperatingSystemConfig \<Rightarrow> string \<times> error option" where
  "handleProvisionOSC e osc =
     (case FilesToDiskScript e (Namespace osc) (Files (Spec osc)) of
        (writeFilesToDiskScript, Some err) \<Rightarrow> ('''', Some err)
      | (writeFilesToDiskScript, None) \<Rightarrow>
          (let writeUnitsToDiskScript = UnitsToDiskScript e (Units (Spec osc));
               script = appendUnitCommands
                          (scriptHead writeFilesToDiskScript writeUnitsToDiskScript)
                          (Units (Spec osc))
           in if Type (Spec osc) = OSTypeMemoryOneGardenLinux e
              then wrapIntoMemoryOneHeaderAndFooter e osc script
              else (script, None)))"

subsection \<open>Reconciling: files, units and the in-place update\<close>

text \<open>One emitted script file: inline content, the uniform permissions.\<close>

definition scriptFile :: "env \<Rightarrow> string \<Rightarrow> string \<Rightarrow> File" where
  "scriptFile e path content =
     \<lparr>Path = path,
      Permissions = Some (ScriptPermissions e),
      File.Content = \<lparr>SecretRef = None,
                      Inline = Some \<lparr>Encoding = '''', Data = content\<rparr>,
                      TransmitUnencoded = None,
                      ImageRef = None\<rparr>\<rparr>"

text \<open>One emitted unit: a single drop-in that runs the script before the service starts.\<close>

definition cgroupDriverUnit :: "string \<Rightarrow> string \<Rightarrow> string \<Rightarrow> Unit" where
  "cgroupDriverUnit name filePathFunctionsHelperScript filePathScript =
     \<lparr>Unit.Name = name,
      Command = None,
      Enable = None,
      Unit.Content = None,
      DropIns = [\<lparr>DropIn.Name = ''10-configure-cgroup-driver.conf'',
                  DropIn.Content = ''[Service]\<newline>'' @ ''ExecStartPre='' @ filePathScript @ ''\<newline>''\<rparr>],
      FilePaths = [filePathFunctionsHelperScript, filePathScript]\<rparr>"

definition handleReconcileOSC ::
  "env \<Rightarrow> OperatingSystemConfig \<Rightarrow>
   Unit list \<times> File list \<times> InPlaceUpdateConfig option \<times> error option" where
  "handleReconcileOSC e osConfig =
     (let extensionUnits = [];
          extensionFiles = [];
          filePathOSUpdateScript = Join e (ScriptLocation e) ''inplace-update.sh'';
          extensionFiles = extensionFiles @
            [scriptFile e filePathOSUpdateScript (scriptContentInPlaceUpdate e)];
          inPlaceUpdateConfig =
            \<lparr>OSUpdateCommand = Some filePathOSUpdateScript,
             OSUpdateCommandArgs =
               [case OSVersion (Spec osConfig) of None \<Rightarrow> '''' | Some v \<Rightarrow> v]\<rparr>;
          filePathFunctionsHelperScript = Join e (ScriptLocation e) ''g_functions.sh'';
          extensionFiles = extensionFiles @
            [scriptFile e filePathFunctionsHelperScript (scriptContentGFunctions e)];
          filePathKubeletCGroupDriverScript =
            Join e (ScriptLocation e) ''kubelet_cgroup_driver.sh'';
          extensionFiles = extensionFiles @
            [scriptFile e filePathKubeletCGroupDriverScript (scriptContentKubeletCGroupDriver e)];
          extensionUnits = extensionUnits @
            [cgroupDriverUnit ''kubelet.service''
               filePathFunctionsHelperScript filePathKubeletCGroupDriverScript];
          filePathContainerdCGroupDriverScript =
            Join e (ScriptLocation e) ''containerd_cgroup_driver.sh'';
          extensionFiles = extensionFiles @
            [scriptFile e filePathContainerdCGroupDriverScript
               (scriptContentContainerdCGroupDriver e)];
          extensionUnits = extensionUnits @
            [cgroupDriverUnit ''containerd.service''
               filePathFunctionsHelperScript filePathContainerdCGroupDriverScript]
      in (extensionUnits, extensionFiles, Some inPlaceUpdateConfig, None))"

subsection \<open>The entry points\<close>

text \<open>
  The results are, in Go's order, the script bytes, the units, the files, the in-place
  update configuration and the error.
\<close>

type_synonym result =
  "string \<times> Unit list \<times> File list \<times> InPlaceUpdateConfig option \<times> error option"

definition Reconcile :: "env \<Rightarrow> OperatingSystemConfig \<Rightarrow> result" where
  "Reconcile e osc =
     (let purpose = Purpose (Spec osc)
      in if purpose = OperatingSystemConfigPurposeProvision then
           (case handleProvisionOSC e osc of
              (userData, err) \<Rightarrow> (userData, [], [], None, err))
         else if purpose = OperatingSystemConfigPurposeReconcile then
           (case handleReconcileOSC e osc of
              (extensionUnits, extensionFiles, inPlaceUpdateConfig, err) \<Rightarrow>
                ('''', extensionUnits, extensionFiles, inPlaceUpdateConfig, err))
         else ('''', [], [], None, Some (Error (''unknown purpose: '' @ purpose))))"

definition Delete :: "env \<Rightarrow> OperatingSystemConfig \<Rightarrow> error option" where
  "Delete e osc = None"

definition Migrate :: "env \<Rightarrow> OperatingSystemConfig \<Rightarrow> error option" where
  "Migrate e osc = Delete e osc"

definition ForceDelete :: "env \<Rightarrow> OperatingSystemConfig \<Rightarrow> error option" where
  "ForceDelete e osc = Delete e osc"

definition Restore :: "env \<Rightarrow> OperatingSystemConfig \<Rightarrow> result" where
  "Restore e osc = Reconcile e osc"

subsection \<open>Example requests\<close>

text \<open>
  A concrete environment and concrete requests, on which the theorems below are
  evaluated. The renderer of the example writes an inline file as a here-document and
  fails on a file without inline content; the example decoder of the provider
  configuration knows one document.
\<close>

fun exampleFilesToDiskScript :: "string \<Rightarrow> File list \<Rightarrow> string \<times> error option" where
  "exampleFilesToDiskScript ns [] = ('''', None)"
| "exampleFilesToDiskScript ns (f # fs) =
     (case Inline (File.Content f) of
        None \<Rightarrow> ('''', Some (Error (''no content for '' @ Path f)))
      | Some i \<Rightarrow>
          (case exampleFilesToDiskScript ns fs of
             (out, Some err) \<Rightarrow> ('''', Some err)
           | (out, None) \<Rightarrow>
               (''\<newline>cat << EOF > '' @ Path f @ ''\<newline>'' @ Data i @ ''\<newline>EOF'' @ out, None)))"

fun exampleUnitsToDiskScript :: "Unit list \<Rightarrow> string" where
  "exampleUnitsToDiskScript [] = ''''"
| "exampleUnitsToDiskScript (u # us) =
     ''\<newline>touch /etc/systemd/system/'' @ Unit.Name u @ exampleUnitsToDiskScript us"

definition exampleConfiguration ::
  "OperatingSystemConfig \<Rightarrow> OperatingSystemConfiguration option \<times> error option" where
  "exampleConfiguration osc =
     (case ProviderConfig (Spec osc) of
        None \<Rightarrow> (None, None)
      | Some raw \<Rightarrow>
          if raw = ''systemMemory: 4G''
          then (Some \<lparr>MemoryTopology = None, SystemMemory = Some ''4G''\<rparr>, None)
          else (None, Some (Error ''failed to decode provider config'')))"

definition exampleEnv :: env where
  "exampleEnv =
     \<lparr>ScriptLocation = ''/opt/gardener/bin'',
      ScriptPermissions = 0x1ED,
      OSTypeMemoryOneGardenLinux = ''memoryone-gardenlinux'',
      scriptContentInPlaceUpdate = ''#!/bin/bash\<newline>sudo gardenlinux-update $1\<newline>'',
      scriptContentGFunctions = ''#!/bin/bash\<newline>'',
      scriptContentKubeletCGroupDriver = ''#!/bin/bash\<newline>kubelet\<newline>'',
      scriptContentContainerdCGroupDriver = ''#!/bin/bash\<newline>containerd\<newline>'',
      Join = (\<lambda>dir name. dir @ ''/'' @ name),
      FilesToDiskScript = exampleFilesToDiskScript,
      UnitsToDiskScript = exampleUnitsToDiskScript,
      Configuration = exampleConfiguration\<rparr>"

definition exampleUnit :: "string \<Rightarrow> Unit" where
  "exampleUnit name =
     \<lparr>Unit.Name = name, Command = None, Enable = None, Unit.Content = None,
      DropIns = [], FilePaths = []\<rparr>"

definition exampleInlineFile :: "string \<Rightarrow> string \<Rightarrow> File" where
  "exampleInlineFile path content =
     \<lparr>Path = path, Permissions = None,
      File.Content = \<lparr>SecretRef = None,
                      Inline = Some \<lparr>Encoding = '''', Data = content\<rparr>,
                      TransmitUnencoded = Some True,
                      ImageRef = None\<rparr>\<rparr>"

definition exampleSecretFile :: "string \<Rightarrow> File" where
  "exampleSecretFile path =
     \<lparr>Path = path, Permissions = None,
      File.Content = \<lparr>SecretRef = Some \<lparr>FileContentSecretRef.Name = ''missing'', DataKey = ''key''\<rparr>,
                      Inline = None,
                      TransmitUnencoded = None,
                      ImageRef = None\<rparr>\<rparr>"

definition exampleRequest ::
  "string \<Rightarrow> string \<Rightarrow> string option \<Rightarrow> Unit list \<Rightarrow> File list \<Rightarrow> string option
   \<Rightarrow> OperatingSystemConfig" where
  "exampleRequest purpose type providerConfig units files osVersion =
     \<lparr>Namespace = ''shoot--foo--bar'',
      Spec = \<lparr>Type = type, ProviderConfig = providerConfig, Purpose = purpose,
              Units = units, Files = files, OSVersion = osVersion\<rparr>\<rparr>"

subsection \<open>Lines and markers\<close>

text \<open>
  The vocabulary of the properties about the text of a script or an envelope. The lines of
  a text are what stands between its line feeds, as \<^verbatim>\<open>strings.Split(text, "\n")\<close>
  gives them; a line of a key is a line that begins with the key.
\<close>

fun splitLines :: "string \<Rightarrow> string list" where
  "splitLines [] = [[]]"
| "splitLines (c # cs) =
     (if c = CHR 0x0A then [] # splitLines cs
      else (case splitLines cs of
              [] \<Rightarrow> [[c]]
            | l # ls \<Rightarrow> (c # l) # ls))"

definition linesWith :: "string \<Rightarrow> string \<Rightarrow> string list" where
  "linesWith key text = filter (prefix key) (splitLines text)"

text \<open>The first line of the envelope, without its line feed.\<close>

definition envelopeFirstLine :: string where
  \<open>envelopeFirstLine = ''Content-Type: multipart/mixed; boundary="==BOUNDARY=="''\<close>

section \<open>Properties\<close>

subsection \<open>Shared facts\<close>

lemma purposes_distinct:
  "OperatingSystemConfigPurposeReconcile \<noteq> OperatingSystemConfigPurposeProvision"
  by (simp add: OperatingSystemConfigPurposeReconcile_def OperatingSystemConfigPurposeProvision_def)

lemma Reconcile_provision:
  "Purpose (Spec osc) = OperatingSystemConfigPurposeProvision \<Longrightarrow>
   Reconcile e osc = (fst (handleProvisionOSC e osc), [], [], None, snd (handleProvisionOSC e osc))"
  by (simp add: Reconcile_def split: prod.splits)

lemma Reconcile_reconcile:
  "Purpose (Spec osc) = OperatingSystemConfigPurposeReconcile \<Longrightarrow>
   Reconcile e osc =
     (case handleReconcileOSC e osc of
        (extensionUnits, extensionFiles, inPlaceUpdateConfig, err) \<Rightarrow>
          ([], extensionUnits, extensionFiles, inPlaceUpdateConfig, err))"
  by (simp add: Reconcile_def purposes_distinct)

lemmas example_defs =
  exampleEnv_def exampleRequest_def exampleUnit_def exampleInlineFile_def
  exampleSecretFile_def exampleConfiguration_def
  OperatingSystemConfigPurposeReconcile_def OperatingSystemConfigPurposeProvision_def

subsection \<open>The dispatcher\<close>

text \<open>
  C1. A request whose purpose is neither Provision nor Reconcile gets the error
  \<^verbatim>\<open>unknown purpose: <purpose>\<close>, and the script bytes, the units, the files and the
  in-place update configuration are all empty (nil).
\<close>

theorem Reconcile_unknown_purpose:
  assumes "Purpose (Spec osc) \<noteq> OperatingSystemConfigPurposeProvision"
    and "Purpose (Spec osc) \<noteq> OperatingSystemConfigPurposeReconcile"
  shows "Reconcile e osc =
           ([], [], [], None, Some (Error (''unknown purpose: '' @ Purpose (Spec osc))))"
  using assms by (simp add: Reconcile_def)

theorem Reconcile_unknown_purpose_witness:
  "Purpose (Spec (exampleRequest ''delete'' ''gardenlinux'' None
       [exampleUnit ''foo.service''] [exampleSecretFile ''/etc/a''] (Some ''1312.0'')))
     \<noteq> OperatingSystemConfigPurposeProvision \<and>
   Purpose (Spec (exampleRequest ''delete'' ''gardenlinux'' None
       [exampleUnit ''foo.service''] [exampleSecretFile ''/etc/a''] (Some ''1312.0'')))
     \<noteq> OperatingSystemConfigPurposeReconcile \<and>
   Reconcile exampleEnv (exampleRequest ''delete'' ''gardenlinux'' None
       [exampleUnit ''foo.service''] [exampleSecretFile ''/etc/a''] (Some ''1312.0''))
     = ([], [], [], None, Some (Error ''unknown purpose: delete''))"
  using Reconcile_unknown_purpose [of
      "exampleRequest ''delete'' ''gardenlinux'' None
         [exampleUnit ''foo.service''] [exampleSecretFile ''/etc/a''] (Some ''1312.0'')"
      exampleEnv]
  by (simp add: example_defs)

text \<open>
  C4. \<^verbatim>\<open>Restore\<close> returns what \<^verbatim>\<open>Reconcile\<close> returns on the same request: script,
  units, files, update configuration and error.
\<close>

theorem Restore_is_Reconcile:
  "Restore e osc = Reconcile e osc"
  by (simp add: Restore_def)

text \<open>
  C9. \<^verbatim>\<open>Delete\<close> returns the nil error on every request, and it returns nothing else:
  it has no artifact to produce or change. \<^verbatim>\<open>Migrate\<close> and \<^verbatim>\<open>ForceDelete\<close> return
  what \<^verbatim>\<open>Delete\<close> returns.
\<close>

theorem Delete_always_succeeds:
  "Delete e osc = None \<and> Migrate e osc = Delete e osc \<and> ForceDelete e osc = Delete e osc"
  by (simp add: Delete_def Migrate_def ForceDelete_def)

subsection \<open>The reconcile artifacts\<close>

lemma handleReconcileOSC_eq:
  "handleReconcileOSC e osConfig =
     ([cgroupDriverUnit ''kubelet.service''
         (Join e (ScriptLocation e) ''g_functions.sh'')
         (Join e (ScriptLocation e) ''kubelet_cgroup_driver.sh''),
       cgroupDriverUnit ''containerd.service''
         (Join e (ScriptLocation e) ''g_functions.sh'')
         (Join e (ScriptLocation e) ''containerd_cgroup_driver.sh'')],
      [scriptFile e (Join e (ScriptLocation e) ''inplace-update.sh'')
         (scriptContentInPlaceUpdate e),
       scriptFile e (Join e (ScriptLocation e) ''g_functions.sh'')
         (scriptContentGFunctions e),
       scriptFile e (Join e (ScriptLocation e) ''kubelet_cgroup_driver.sh'')
         (scriptContentKubeletCGroupDriver e),
       scriptFile e (Join e (ScriptLocation e) ''containerd_cgroup_driver.sh'')
         (scriptContentContainerdCGroupDriver e)],
      Some \<lparr>OSUpdateCommand = Some (Join e (ScriptLocation e) ''inplace-update.sh''),
            OSUpdateCommandArgs =
              [case OSVersion (Spec osConfig) of None \<Rightarrow> [] | Some v \<Rightarrow> v]\<rparr>,
      None)"
  by (simp add: handleReconcileOSC_def Let_def)

text \<open>
  C2. A request with purpose Reconcile gets no script bytes and no error; four files, in
  the order in-place update script, helper script, kubelet script, containerd script, each
  with its template as inline content and the script permissions; two units,
  \<^verbatim>\<open>kubelet.service\<close> then \<^verbatim>\<open>containerd.service\<close>, each with the one drop-in
  \<^verbatim>\<open>10-configure-cgroup-driver.conf\<close>; and an in-place update configuration whose
  command is the path of the in-place update script and whose arguments are the one-element
  list of the OS version, the empty string when the version is unset.
\<close>

theorem Reconcile_reconcile_artifacts:
  assumes "Purpose (Spec osc) = OperatingSystemConfigPurposeReconcile"
  shows "\<exists>units files config.
           Reconcile e osc = ([], units, files, Some config, None) \<and>
           map Path files =
             [Join e (ScriptLocation e) ''inplace-update.sh'',
              Join e (ScriptLocation e) ''g_functions.sh'',
              Join e (ScriptLocation e) ''kubelet_cgroup_driver.sh'',
              Join e (ScriptLocation e) ''containerd_cgroup_driver.sh''] \<and>
           map (\<lambda>f. map_option Data (Inline (File.Content f))) files =
             [Some (scriptContentInPlaceUpdate e),
              Some (scriptContentGFunctions e),
              Some (scriptContentKubeletCGroupDriver e),
              Some (scriptContentContainerdCGroupDriver e)] \<and>
           map Permissions files = replicate 4 (Some (ScriptPermissions e)) \<and>
           map Unit.Name units = [''kubelet.service'', ''containerd.service''] \<and>
           map (\<lambda>u. map DropIn.Name (DropIns u)) units =
             [[''10-configure-cgroup-driver.conf''], [''10-configure-cgroup-driver.conf'']] \<and>
           OSUpdateCommand config = Some (Join e (ScriptLocation e) ''inplace-update.sh'') \<and>
           OSUpdateCommandArgs config =
             [case OSVersion (Spec osc) of None \<Rightarrow> [] | Some v \<Rightarrow> v]"
  using assms
  by (simp add: Reconcile_reconcile handleReconcileOSC_eq scriptFile_def cgroupDriverUnit_def
      numeral_eq_Suc)

theorem Reconcile_reconcile_artifacts_witness:
  "Purpose (Spec (exampleRequest ''reconcile'' ''gardenlinux'' None [] [] (Some ''1312.0'')))
     = OperatingSystemConfigPurposeReconcile \<and>
   map Path (fst (snd (snd (Reconcile exampleEnv
       (exampleRequest ''reconcile'' ''gardenlinux'' None [] [] (Some ''1312.0''))))))
     = [''/opt/gardener/bin/inplace-update.sh'', ''/opt/gardener/bin/g_functions.sh'',
        ''/opt/gardener/bin/kubelet_cgroup_driver.sh'',
        ''/opt/gardener/bin/containerd_cgroup_driver.sh''] \<and>
   map Unit.Name (fst (snd (Reconcile exampleEnv
       (exampleRequest ''reconcile'' ''gardenlinux'' None [] [] (Some ''1312.0'')))))
     = [''kubelet.service'', ''containerd.service''] \<and>
   fst (snd (snd (snd (Reconcile exampleEnv
       (exampleRequest ''reconcile'' ''gardenlinux'' None [] [] (Some ''1312.0''))))))
     = Some \<lparr>OSUpdateCommand = Some ''/opt/gardener/bin/inplace-update.sh'',
             OSUpdateCommandArgs = [''1312.0'']\<rparr> \<and>
   fst (snd (snd (snd (Reconcile exampleEnv
       (exampleRequest ''reconcile'' ''gardenlinux'' None [] [] None)))))
     = Some \<lparr>OSUpdateCommand = Some ''/opt/gardener/bin/inplace-update.sh'',
             OSUpdateCommandArgs = [[]]\<rparr>"
  using Reconcile_reconcile_artifacts [of
      "exampleRequest ''reconcile'' ''gardenlinux'' None [] [] (Some ''1312.0'')" exampleEnv]
    Reconcile_reconcile_artifacts [of
      "exampleRequest ''reconcile'' ''gardenlinux'' None [] [] None" exampleEnv]
  by (auto simp add: example_defs)

text \<open>
  C3. In the result of a request with purpose Reconcile, the command of the in-place
  update configuration is the path of one of the files, and every entry of the file paths
  of every unit is the path of one of the files.
\<close>

theorem Reconcile_referential_integrity:
  assumes "Purpose (Spec osc) = OperatingSystemConfigPurposeReconcile"
    and "Reconcile e osc = (userData, units, files, config, err)"
  shows "(\<exists>c. config = Some c \<and> (\<exists>f \<in> set files. OSUpdateCommand c = Some (Path f))) \<and>
         (\<forall>u \<in> set units. \<forall>p \<in> set (FilePaths u). \<exists>f \<in> set files. Path f = p)"
  using assms
  by (auto simp add: Reconcile_reconcile handleReconcileOSC_eq scriptFile_def cgroupDriverUnit_def)

theorem Reconcile_referential_integrity_witness:
  "Purpose (Spec (exampleRequest ''reconcile'' ''gardenlinux'' None
       [exampleUnit ''foo.service''] [exampleSecretFile ''/etc/a''] (Some ''1312.0'')))
     = OperatingSystemConfigPurposeReconcile \<and>
   (\<exists>userData units files c err.
      Reconcile exampleEnv (exampleRequest ''reconcile'' ''gardenlinux'' None
          [exampleUnit ''foo.service''] [exampleSecretFile ''/etc/a''] (Some ''1312.0''))
        = (userData, units, files, Some c, err) \<and>
      OSUpdateCommand c \<in> Some ` Path ` set files \<and>
      length units = 2 \<and>
      set (concat (map FilePaths units)) \<subseteq> Path ` set files)"
proof -
  let ?osc = "exampleRequest ''reconcile'' ''gardenlinux'' None
      [exampleUnit ''foo.service''] [exampleSecretFile ''/etc/a''] (Some ''1312.0'')"
  have p: "Purpose (Spec ?osc) = OperatingSystemConfigPurposeReconcile"
    by (simp add: example_defs)
  obtain userData units files config err
    where r: "Reconcile exampleEnv ?osc = (userData, units, files, config, err)"
    by (cases "Reconcile exampleEnv ?osc") blast
  from Reconcile_referential_integrity [OF p r]
  obtain c where c: "config = Some c" "\<exists>f \<in> set files. OSUpdateCommand c = Some (Path f)"
    and u: "\<forall>u \<in> set units. \<forall>p \<in> set (FilePaths u). \<exists>f \<in> set files. Path f = p"
    by blast
  have "length units = 2"
    using r by (auto simp add: Reconcile_reconcile [OF p] handleReconcileOSC_eq)
  moreover have "OSUpdateCommand c \<in> Some ` Path ` set files"
    using c(2) by auto
  moreover have "set (concat (map FilePaths units)) \<subseteq> Path ` set files"
    using u by fastforce
  ultimately have "Reconcile exampleEnv ?osc = (userData, units, files, Some c, err) \<and>
      OSUpdateCommand c \<in> Some ` Path ` set files \<and>
      length units = 2 \<and>
      set (concat (map FilePaths units)) \<subseteq> Path ` set files"
    using r c(1) by simp
  with p show ?thesis
    by blast
qed

text \<open>
  C10. The reconcile artifacts depend on the request through its OS version only: two
  requests with the same OS version, whatever their files, units, namespace and type, get
  the same units, files and update configuration, and the error is nil. (The templates
  and constants are those of the one environment both calls run in.)
\<close>

theorem handleReconcileOSC_depends_on_OSVersion_only:
  assumes "OSVersion (Spec osc1) = OSVersion (Spec osc2)"
  shows "handleReconcileOSC e osc1 = handleReconcileOSC e osc2 \<and>
         snd (snd (snd (handleReconcileOSC e osc1))) = None"
  using assms by (simp add: handleReconcileOSC_eq)

theorem handleReconcileOSC_depends_on_OSVersion_only_witness:
  "OSVersion (Spec (exampleRequest ''reconcile'' ''gardenlinux'' None
       [exampleUnit ''foo.service''] [exampleSecretFile ''/etc/a''] (Some ''1312.0'')))
     = OSVersion (Spec ((exampleRequest ''reconcile'' ''memoryone-gardenlinux''
         (Some ''systemMemory: 4G'') [] [exampleInlineFile ''/etc/b'' ''hello'']
         (Some ''1312.0'')) \<lparr>Namespace := ''shoot--other''\<rparr>)) \<and>
   handleReconcileOSC exampleEnv (exampleRequest ''reconcile'' ''gardenlinux'' None
       [exampleUnit ''foo.service''] [exampleSecretFile ''/etc/a''] (Some ''1312.0''))
     = handleReconcileOSC exampleEnv ((exampleRequest ''reconcile'' ''memoryone-gardenlinux''
         (Some ''systemMemory: 4G'') [] [exampleInlineFile ''/etc/b'' ''hello'']
         (Some ''1312.0'')) \<lparr>Namespace := ''shoot--other''\<rparr>) \<and>
   snd (snd (snd (handleReconcileOSC exampleEnv (exampleRequest ''reconcile'' ''gardenlinux''
       None [exampleUnit ''foo.service''] [exampleSecretFile ''/etc/a''] (Some ''1312.0''))))) = None"
  using handleReconcileOSC_depends_on_OSVersion_only [of
      "exampleRequest ''reconcile'' ''gardenlinux'' None
         [exampleUnit ''foo.service''] [exampleSecretFile ''/etc/a''] (Some ''1312.0'')"
      "(exampleRequest ''reconcile'' ''memoryone-gardenlinux''
         (Some ''systemMemory: 4G'') [] [exampleInlineFile ''/etc/b'' ''hello'']
         (Some ''1312.0'')) \<lparr>Namespace := ''shoot--other''\<rparr>"
      exampleEnv]
  by (simp add: exampleRequest_def handleReconcileOSC_eq)

subsection \<open>The provisioning script\<close>

lemma appendUnitCommands_concat:
  "appendUnitCommands script units =
     script @ concat (map (\<lambda>unit. enableAndRestart (Unit.Name unit)) units)"
  by (induction units arbitrary: script) simp_all

lemma handleProvisionOSC_rendered:
  assumes "FilesToDiskScript e (Namespace osc) (Files (Spec osc)) = (writeFiles, None)"
  shows "handleProvisionOSC e osc =
           (if Type (Spec osc) = OSTypeMemoryOneGardenLinux e
            then wrapIntoMemoryOneHeaderAndFooter e osc
                   (scriptHead writeFiles (UnitsToDiskScript e (Units (Spec osc))) @
                    concat (map (\<lambda>unit. enableAndRestart (Unit.Name unit)) (Units (Spec osc))))
            else (scriptHead writeFiles (UnitsToDiskScript e (Units (Spec osc))) @
                  concat (map (\<lambda>unit. enableAndRestart (Unit.Name unit)) (Units (Spec osc))),
                  None))"
  using assms by (simp add: handleProvisionOSC_def Let_def appendUnitCommands_concat)

lemma handleProvisionOSC_render_failed:
  assumes "FilesToDiskScript e (Namespace osc) (Files (Spec osc)) = (writeFiles, Some err)"
  shows "handleProvisionOSC e osc = ([], Some err)"
  using assms by (simp add: handleProvisionOSC_def)

lemma wrapIntoMemoryOneHeaderAndFooter_failed:
  assumes "Configuration e osc = (config, Some err)"
  shows "wrapIntoMemoryOneHeaderAndFooter e osc inp = ([], Some err)"
  using assms by (simp add: wrapIntoMemoryOneHeaderAndFooter_def)

lemma wrapIntoMemoryOneHeaderAndFooter_derived:
  assumes "Configuration e osc = (config, None)"
  shows "wrapIntoMemoryOneHeaderAndFooter e osc inp =
           (envelopeHeader @ systemMemoryLine config @ memTopologyLine config @
            envelopeScriptPart @ inp @ envelopeFooter, None)"
  using assms by (simp add: wrapIntoMemoryOneHeaderAndFooter_def)

text \<open>
  C7. For a request with purpose Provision whose files were rendered, the composed script
  is the fixed text around the two rendered fragments followed by one line per unit of the
  request, in the order of the request, each line being
  \<^verbatim>\<open>systemctl enable '<name>' && systemctl restart --no-block '<name>'\<close> with the name
  of the unit written as it is. That script is what is returned, or what is wrapped for
  the memory variant.
\<close>

theorem Reconcile_provision_unit_commands:
  assumes "Purpose (Spec osc) = OperatingSystemConfigPurposeProvision"
    and "FilesToDiskScript e (Namespace osc) (Files (Spec osc)) = (writeFiles, None)"
  shows "\<exists>script.
           script =
             scriptHead writeFiles (UnitsToDiskScript e (Units (Spec osc))) @
             concat (map (\<lambda>unit.
                 ''systemctl enable '' @ [CHR 0x27] @ Unit.Name unit @ [CHR 0x27] @
                 '' && systemctl restart --no-block '' @ [CHR 0x27] @ Unit.Name unit @
                 [CHR 0x27] @ ''\<newline>'')
               (Units (Spec osc))) \<and>
           Reconcile e osc =
             (if Type (Spec osc) = OSTypeMemoryOneGardenLinux e
              then (case wrapIntoMemoryOneHeaderAndFooter e osc script of
                      (userData, err) \<Rightarrow> (userData, [], [], None, err))
              else (script, [], [], None, None))"
  using assms
  by (simp add: Reconcile_provision handleProvisionOSC_rendered enableAndRestart_def quote_def
      split: prod.splits)

theorem Reconcile_provision_unit_commands_witness:
  "Purpose (Spec (exampleRequest ''provision'' ''gardenlinux'' None
       [exampleUnit ''foo.service'', exampleUnit ''bar.service'']
       [exampleInlineFile ''/etc/a'' ''hello''] None))
     = OperatingSystemConfigPurposeProvision \<and>
   FilesToDiskScript exampleEnv ''shoot--foo--bar'' [exampleInlineFile ''/etc/a'' ''hello'']
     = (''\<newline>cat << EOF > /etc/a\<newline>hello\<newline>EOF'', None) \<and>
   Reconcile exampleEnv (exampleRequest ''provision'' ''gardenlinux'' None
       [exampleUnit ''foo.service'', exampleUnit ''bar.service'']
       [exampleInlineFile ''/etc/a'' ''hello''] None)
     = (scriptHead ''\<newline>cat << EOF > /etc/a\<newline>hello\<newline>EOF''
          (''\<newline>touch /etc/systemd/system/foo.service'' @
           ''\<newline>touch /etc/systemd/system/bar.service'') @
        ''systemctl enable 'foo.service' && systemctl restart --no-block 'foo.service'\<newline>'' @
        ''systemctl enable 'bar.service' && systemctl restart --no-block 'bar.service'\<newline>'',
        [], [], None, None)"
  using Reconcile_provision_unit_commands [of
      "exampleRequest ''provision'' ''gardenlinux'' None
         [exampleUnit ''foo.service'', exampleUnit ''bar.service'']
         [exampleInlineFile ''/etc/a'' ''hello''] None"
      exampleEnv "''\<newline>cat << EOF > /etc/a\<newline>hello\<newline>EOF''"]
  by (simp add: example_defs)

text \<open>
  C8. For a request with purpose Provision: when rendering the files fails, and when for
  the memory variant the configuration cannot be derived, the result is that same error
  with an empty script and nothing else; and whenever the error of the result is not nil,
  the script of the result is empty.
\<close>

theorem Reconcile_provision_errors:
  assumes "Purpose (Spec osc) = OperatingSystemConfigPurposeProvision"
  shows "(FilesToDiskScript e (Namespace osc) (Files (Spec osc)) = (writeFiles, Some err) \<or>
          FilesToDiskScript e (Namespace osc) (Files (Spec osc)) = (writeFiles, None) \<and>
          Type (Spec osc) = OSTypeMemoryOneGardenLinux e \<and>
          Configuration e osc = (config, Some err)
          \<longrightarrow> Reconcile e osc = ([], [], [], None, Some err)) \<and>
         (snd (snd (snd (snd (Reconcile e osc)))) \<noteq> None \<longrightarrow> fst (Reconcile e osc) = [])"
proof (intro conjI impI)
  assume "FilesToDiskScript e (Namespace osc) (Files (Spec osc)) = (writeFiles, Some err) \<or>
          FilesToDiskScript e (Namespace osc) (Files (Spec osc)) = (writeFiles, None) \<and>
          Type (Spec osc) = OSTypeMemoryOneGardenLinux e \<and>
          Configuration e osc = (config, Some err)"
  then show "Reconcile e osc = ([], [], [], None, Some err)"
  proof
    assume "FilesToDiskScript e (Namespace osc) (Files (Spec osc)) = (writeFiles, Some err)"
    then show ?thesis
      by (simp add: Reconcile_provision [OF assms] handleProvisionOSC_render_failed)
  next
    assume "FilesToDiskScript e (Namespace osc) (Files (Spec osc)) = (writeFiles, None) \<and>
            Type (Spec osc) = OSTypeMemoryOneGardenLinux e \<and>
            Configuration e osc = (config, Some err)"
    then show ?thesis
      by (simp add: Reconcile_provision [OF assms] handleProvisionOSC_rendered
          wrapIntoMemoryOneHeaderAndFooter_failed)
  qed
next
  assume failed: "snd (snd (snd (snd (Reconcile e osc)))) \<noteq> None"
  obtain writeFiles' renderErr
    where render: "FilesToDiskScript e (Namespace osc) (Files (Spec osc)) = (writeFiles', renderErr)"
    by (cases "FilesToDiskScript e (Namespace osc) (Files (Spec osc))") blast
  obtain config' configErr where derive: "Configuration e osc = (config', configErr)"
    by (cases "Configuration e osc") blast
  show "fst (Reconcile e osc) = []"
  proof (cases renderErr)
    case (Some err')
    with render show ?thesis
      by (simp add: Reconcile_provision [OF assms] handleProvisionOSC_render_failed)
  next
    case None
    note rendered = render [unfolded None]
    show ?thesis
    proof (cases "Type (Spec osc) = OSTypeMemoryOneGardenLinux e")
      case False
      with failed show ?thesis
        by (simp add: Reconcile_provision [OF assms] handleProvisionOSC_rendered [OF rendered])
    next
      case True
      show ?thesis
      proof (cases configErr)
        case (Some err')
        with derive True show ?thesis
          by (simp add: Reconcile_provision [OF assms] handleProvisionOSC_rendered [OF rendered]
              wrapIntoMemoryOneHeaderAndFooter_failed)
      next
        case None
        with derive True failed show ?thesis
          by (simp add: Reconcile_provision [OF assms] handleProvisionOSC_rendered [OF rendered]
              wrapIntoMemoryOneHeaderAndFooter_derived)
      qed
    qed
  qed
qed

theorem Reconcile_provision_errors_witness:
  "Purpose (Spec (exampleRequest ''provision'' ''gardenlinux'' None
       [exampleUnit ''foo.service''] [exampleSecretFile ''/etc/a''] None))
     = OperatingSystemConfigPurposeProvision \<and>
   FilesToDiskScript exampleEnv ''shoot--foo--bar'' [exampleSecretFile ''/etc/a'']
     = ([], Some (Error ''no content for /etc/a'')) \<and>
   Reconcile exampleEnv (exampleRequest ''provision'' ''gardenlinux'' None
       [exampleUnit ''foo.service''] [exampleSecretFile ''/etc/a''] None)
     = ([], [], [], None, Some (Error ''no content for /etc/a'')) \<and>
   Purpose (Spec (exampleRequest ''provision'' ''memoryone-gardenlinux''
       (Some ''systemMemory: lots'') [exampleUnit ''foo.service''] [] None))
     = OperatingSystemConfigPurposeProvision \<and>
   FilesToDiskScript exampleEnv ''shoot--foo--bar'' [] = ([], None) \<and>
   Configuration exampleEnv (exampleRequest ''provision'' ''memoryone-gardenlinux''
       (Some ''systemMemory: lots'') [exampleUnit ''foo.service''] [] None)
     = (None, Some (Error ''failed to decode provider config'')) \<and>
   Reconcile exampleEnv (exampleRequest ''provision'' ''memoryone-gardenlinux''
       (Some ''systemMemory: lots'') [exampleUnit ''foo.service''] [] None)
     = ([], [], [], None, Some (Error ''failed to decode provider config'')) \<and>
   snd (snd (snd (snd (Reconcile exampleEnv (exampleRequest ''provision''
       ''memoryone-gardenlinux'' (Some ''systemMemory: lots'') [exampleUnit ''foo.service'']
       [] None))))) \<noteq> None \<and>
   fst (Reconcile exampleEnv (exampleRequest ''provision'' ''memoryone-gardenlinux''
       (Some ''systemMemory: lots'') [exampleUnit ''foo.service''] [] None)) = []"
  using Reconcile_provision_errors [of
      "exampleRequest ''provision'' ''gardenlinux'' None
         [exampleUnit ''foo.service''] [exampleSecretFile ''/etc/a''] None"
      exampleEnv "[]" "Error ''no content for /etc/a''" None]
    Reconcile_provision_errors [of
      "exampleRequest ''provision'' ''memoryone-gardenlinux''
         (Some ''systemMemory: lots'') [exampleUnit ''foo.service''] [] None"
      exampleEnv "[]" "Error ''failed to decode provider config''" None]
  by (simp add: example_defs)

subsection \<open>Lines and markers of a text\<close>

lemma splitLines_not_Nil: "splitLines s \<noteq> []"
  by (induction s) (auto split: list.splits)

lemma splitLines_append_newline:
  "splitLines (a @ CHR 0x0A # b) = splitLines a @ splitLines b"
  by (induction a) (auto simp add: splitLines_not_Nil split: list.splits)

lemma splitLines_no_newline:
  "CHR 0x0A \<notin> set s \<Longrightarrow> splitLines s = [s]"
  by (induction s) auto

lemma linesWith_append_newline:
  "linesWith key (a @ CHR 0x0A # b) = linesWith key a @ linesWith key b"
  by (simp add: linesWith_def splitLines_append_newline)

lemma linesWith_no_newline:
  "CHR 0x0A \<notin> set s \<Longrightarrow> linesWith key s = (if prefix key s then [s] else [])"
  by (simp add: linesWith_def splitLines_no_newline)

lemma sublist_split:
  assumes "c \<notin> set m"
  shows "sublist m (a @ c # b) \<longleftrightarrow> sublist m a \<or> sublist m b"
  using assms
  by (auto simp add: sublist_append sublist_Cons_right prefix_Cons)

subsection \<open>The envelope of the memory variant\<close>

lemma envelopeHeader_no_memory_lines:
  "linesWith ''system_memory='' envelopeHeader = []"
  "linesWith ''mem_topology='' envelopeHeader = []"
  by code_simp+

lemma linesWith_envelope:
  assumes "linesWith key ''--==BOUNDARY=='' = []"
    and "linesWith key ''Content-Type: text/x-shellscript'' = []"
  shows "linesWith key (x @ envelopeScriptPart @ inp @ envelopeFooter) =
           linesWith key x @ linesWith key inp"
proof -
  have "x @ envelopeScriptPart @ inp @ envelopeFooter =
          x @ CHR 0x0A # (''--==BOUNDARY=='' @ CHR 0x0A #
            (''Content-Type: text/x-shellscript'' @ CHR 0x0A #
              (inp @ CHR 0x0A # ''--==BOUNDARY=='')))"
    by (simp add: envelopeScriptPart_def envelopeFooter_def)
  then show ?thesis
    by (simp only: linesWith_append_newline assms append_Nil append_Nil2)
qed

lemma linesWith_envelope_memory:
  "linesWith ''system_memory='' (x @ envelopeScriptPart @ inp @ envelopeFooter) =
     linesWith ''system_memory='' x @ linesWith ''system_memory='' inp"
  "linesWith ''mem_topology='' (x @ envelopeScriptPart @ inp @ envelopeFooter) =
     linesWith ''mem_topology='' x @ linesWith ''mem_topology='' inp"
  by (rule linesWith_envelope; code_simp)+

lemma linesWith_header_fields:
  assumes "CHR 0x0A \<notin> set (case systemMemory of None \<Rightarrow> [] | Some v \<Rightarrow> v)"
    and "CHR 0x0A \<notin> set (case memoryTopology of None \<Rightarrow> [] | Some v \<Rightarrow> v)"
  shows "linesWith ''system_memory=''
           (envelopeHeader @
            (case systemMemory of None \<Rightarrow> [] | Some v \<Rightarrow> ''\<newline>system_memory='' @ v) @
            (case memoryTopology of None \<Rightarrow> [] | Some v \<Rightarrow> ''\<newline>mem_topology='' @ v)) =
         (case systemMemory of None \<Rightarrow> [] | Some v \<Rightarrow> [''system_memory='' @ v])"
    and "linesWith ''mem_topology=''
           (envelopeHeader @
            (case systemMemory of None \<Rightarrow> [] | Some v \<Rightarrow> ''\<newline>system_memory='' @ v) @
            (case memoryTopology of None \<Rightarrow> [] | Some v \<Rightarrow> ''\<newline>mem_topology='' @ v)) =
         (case memoryTopology of None \<Rightarrow> [] | Some v \<Rightarrow> [''mem_topology='' @ v])"
proof -
  show "linesWith ''system_memory=''
           (envelopeHeader @
            (case systemMemory of None \<Rightarrow> [] | Some v \<Rightarrow> ''\<newline>system_memory='' @ v) @
            (case memoryTopology of None \<Rightarrow> [] | Some v \<Rightarrow> ''\<newline>mem_topology='' @ v)) =
         (case systemMemory of None \<Rightarrow> [] | Some v \<Rightarrow> [''system_memory='' @ v])"
    using assms
    by (cases systemMemory; cases memoryTopology)
      (simp_all add: envelopeHeader_no_memory_lines [unfolded linesWith_def] linesWith_def
        splitLines_append_newline splitLines_no_newline)
  show "linesWith ''mem_topology=''
           (envelopeHeader @
            (case systemMemory of None \<Rightarrow> [] | Some v \<Rightarrow> ''\<newline>system_memory='' @ v) @
            (case memoryTopology of None \<Rightarrow> [] | Some v \<Rightarrow> ''\<newline>mem_topology='' @ v)) =
         (case memoryTopology of None \<Rightarrow> [] | Some v \<Rightarrow> [''mem_topology='' @ v])"
    using assms
    by (cases systemMemory; cases memoryTopology)
      (simp_all add: envelopeHeader_no_memory_lines [unfolded linesWith_def] linesWith_def
        splitLines_append_newline splitLines_no_newline)
qed

text \<open>
  C5, as amended. When the configuration of the request is derived, the envelope is the
  header, then \<^verbatim>\<open>system_memory=<v>\<close> on a line of its own exactly when the system
  memory is present, then \<^verbatim>\<open>mem_topology=<v>\<close> on a line of its own exactly when the
  memory topology is present, the values written as they are and nothing written for an
  absent field, then the script part with the script as it is. When moreover neither
  value holds a line feed and no line of the script begins with one of the two keys, the
  envelope has exactly one line beginning with \<^verbatim>\<open>system_memory=\<close>, namely
  \<^verbatim>\<open>system_memory=<v>\<close>, when the system memory is present and none when it is absent,
  and likewise for \<^verbatim>\<open>mem_topology=\<close>.
\<close>

theorem wrapIntoMemoryOneHeaderAndFooter_memory_lines:
  assumes "Configuration e osc = (config, None)"
    and "systemMemory = (case config of None \<Rightarrow> None | Some c \<Rightarrow> SystemMemory c)"
    and "memoryTopology = (case config of None \<Rightarrow> None | Some c \<Rightarrow> MemoryTopology c)"
  shows "fst (wrapIntoMemoryOneHeaderAndFooter e osc inp) =
           envelopeHeader @
           (case systemMemory of None \<Rightarrow> [] | Some v \<Rightarrow> ''\<newline>system_memory='' @ v) @
           (case memoryTopology of None \<Rightarrow> [] | Some v \<Rightarrow> ''\<newline>mem_topology='' @ v) @
           envelopeScriptPart @ inp @ envelopeFooter \<and>
         (CHR 0x0A \<notin> set (case systemMemory of None \<Rightarrow> [] | Some v \<Rightarrow> v) \<and>
          CHR 0x0A \<notin> set (case memoryTopology of None \<Rightarrow> [] | Some v \<Rightarrow> v) \<and>
          linesWith ''system_memory='' inp = [] \<and>
          linesWith ''mem_topology='' inp = []
          \<longrightarrow>
          linesWith ''system_memory='' (fst (wrapIntoMemoryOneHeaderAndFooter e osc inp)) =
            (case systemMemory of None \<Rightarrow> [] | Some v \<Rightarrow> [''system_memory='' @ v]) \<and>
          linesWith ''mem_topology='' (fst (wrapIntoMemoryOneHeaderAndFooter e osc inp)) =
            (case memoryTopology of None \<Rightarrow> [] | Some v \<Rightarrow> [''mem_topology='' @ v]))"
proof -
  let ?fields =
    "(case systemMemory of None \<Rightarrow> [] | Some v \<Rightarrow> ''\<newline>system_memory='' @ v) @
     (case memoryTopology of None \<Rightarrow> [] | Some v \<Rightarrow> ''\<newline>mem_topology='' @ v)"
  have "systemMemoryLine config =
          (case systemMemory of None \<Rightarrow> [] | Some v \<Rightarrow> ''\<newline>system_memory='' @ v)"
    by (simp add: systemMemoryLine_def assms(2) split: option.splits)
  moreover have "memTopologyLine config =
          (case memoryTopology of None \<Rightarrow> [] | Some v \<Rightarrow> ''\<newline>mem_topology='' @ v)"
    by (simp add: memTopologyLine_def assms(3) split: option.splits)
  ultimately have envelope:
    "fst (wrapIntoMemoryOneHeaderAndFooter e osc inp) =
       (envelopeHeader @ ?fields) @ envelopeScriptPart @ inp @ envelopeFooter"
    by (simp add: wrapIntoMemoryOneHeaderAndFooter_derived [OF assms(1)])
  show ?thesis
  proof (intro conjI impI)
    show "fst (wrapIntoMemoryOneHeaderAndFooter e osc inp) =
            envelopeHeader @
            (case systemMemory of None \<Rightarrow> [] | Some v \<Rightarrow> ''\<newline>system_memory='' @ v) @
            (case memoryTopology of None \<Rightarrow> [] | Some v \<Rightarrow> ''\<newline>mem_topology='' @ v) @
            envelopeScriptPart @ inp @ envelopeFooter"
      using envelope by simp
  next
    assume clean:
      "CHR 0x0A \<notin> set (case systemMemory of None \<Rightarrow> [] | Some v \<Rightarrow> v) \<and>
       CHR 0x0A \<notin> set (case memoryTopology of None \<Rightarrow> [] | Some v \<Rightarrow> v) \<and>
       linesWith ''system_memory='' inp = [] \<and>
       linesWith ''mem_topology='' inp = []"
    then show "linesWith ''system_memory='' (fst (wrapIntoMemoryOneHeaderAndFooter e osc inp)) =
            (case systemMemory of None \<Rightarrow> [] | Some v \<Rightarrow> [''system_memory='' @ v])"
      by (simp add: envelope linesWith_envelope_memory linesWith_header_fields
          del: append_assoc)
  next
    assume clean:
      "CHR 0x0A \<notin> set (case systemMemory of None \<Rightarrow> [] | Some v \<Rightarrow> v) \<and>
       CHR 0x0A \<notin> set (case memoryTopology of None \<Rightarrow> [] | Some v \<Rightarrow> v) \<and>
       linesWith ''system_memory='' inp = [] \<and>
       linesWith ''mem_topology='' inp = []"
    then show "linesWith ''mem_topology='' (fst (wrapIntoMemoryOneHeaderAndFooter e osc inp)) =
            (case memoryTopology of None \<Rightarrow> [] | Some v \<Rightarrow> [''mem_topology='' @ v])"
      by (simp add: envelope linesWith_envelope_memory linesWith_header_fields
          del: append_assoc)
  qed
qed

lemma example_script_no_memory_lines:
  "linesWith ''system_memory='' (scriptHead [] []) = []"
  "linesWith ''mem_topology='' (scriptHead [] []) = []"
  by code_simp+

theorem wrapIntoMemoryOneHeaderAndFooter_memory_lines_witness:
  "Configuration exampleEnv (exampleRequest ''provision'' ''memoryone-gardenlinux''
       (Some ''systemMemory: 4G'') [] [] None)
     = (Some \<lparr>MemoryTopology = None, SystemMemory = Some ''4G''\<rparr>, None) \<and>
   CHR 0x0A \<notin> set ''4G'' \<and>
   linesWith ''system_memory='' (scriptHead [] []) = [] \<and>
   linesWith ''mem_topology='' (scriptHead [] []) = [] \<and>
   fst (wrapIntoMemoryOneHeaderAndFooter exampleEnv (exampleRequest ''provision''
       ''memoryone-gardenlinux'' (Some ''systemMemory: 4G'') [] [] None) (scriptHead [] []))
     = envelopeHeader @ ''\<newline>system_memory=4G'' @
       envelopeScriptPart @ scriptHead [] [] @ envelopeFooter \<and>
   linesWith ''system_memory='' (fst (wrapIntoMemoryOneHeaderAndFooter exampleEnv
       (exampleRequest ''provision'' ''memoryone-gardenlinux'' (Some ''systemMemory: 4G'')
          [] [] None) (scriptHead [] [])))
     = [''system_memory=4G''] \<and>
   linesWith ''mem_topology='' (fst (wrapIntoMemoryOneHeaderAndFooter exampleEnv
       (exampleRequest ''provision'' ''memoryone-gardenlinux'' (Some ''systemMemory: 4G'')
          [] [] None) (scriptHead [] [])))
     = []"
proof -
  have derived:
    "Configuration exampleEnv (exampleRequest ''provision'' ''memoryone-gardenlinux''
         (Some ''systemMemory: 4G'') [] [] None)
       = (Some \<lparr>MemoryTopology = None, SystemMemory = Some ''4G''\<rparr>, None)"
    by (simp add: example_defs)
  note envelope = wrapIntoMemoryOneHeaderAndFooter_memory_lines
      [OF derived, of "Some ''4G''" None "scriptHead [] []"]
  have whole: "fst (wrapIntoMemoryOneHeaderAndFooter exampleEnv (exampleRequest ''provision''
        ''memoryone-gardenlinux'' (Some ''systemMemory: 4G'') [] [] None) (scriptHead [] []))
      = envelopeHeader @ ''\<newline>system_memory=4G'' @
        envelopeScriptPart @ scriptHead [] [] @ envelopeFooter"
    using envelope by simp
  have lines: "linesWith ''system_memory='' (fst (wrapIntoMemoryOneHeaderAndFooter exampleEnv
        (exampleRequest ''provision'' ''memoryone-gardenlinux'' (Some ''systemMemory: 4G'')
           [] [] None) (scriptHead [] [])))
      = [''system_memory=4G'']"
    "linesWith ''mem_topology='' (fst (wrapIntoMemoryOneHeaderAndFooter exampleEnv
        (exampleRequest ''provision'' ''memoryone-gardenlinux'' (Some ''systemMemory: 4G'')
           [] [] None) (scriptHead [] [])))
      = []"
    using envelope [THEN conjunct2] example_script_no_memory_lines by simp_all
  show ?thesis
    by (intro conjI derived whole lines example_script_no_memory_lines) simp
qed

text \<open>
  C5, as stated, fails: a request of the memory variant without provider configuration,
  so without system memory, whose one file holds the line \<^verbatim>\<open>system_memory=4G\<close>. The
  rendered file is part of the script, the script is part of the envelope as it is, and
  the envelope has a \<^verbatim>\<open>system_memory=\<close> line.
\<close>

theorem memory_lines_counterexample:
  "Purpose (Spec (exampleRequest ''provision'' ''memoryone-gardenlinux'' None []
       [exampleInlineFile ''/etc/vsmp.conf'' ''system_memory=4G''] None))
     = OperatingSystemConfigPurposeProvision \<and>
   Type (Spec (exampleRequest ''provision'' ''memoryone-gardenlinux'' None []
       [exampleInlineFile ''/etc/vsmp.conf'' ''system_memory=4G''] None))
     = OSTypeMemoryOneGardenLinux exampleEnv \<and>
   Configuration exampleEnv (exampleRequest ''provision'' ''memoryone-gardenlinux'' None []
       [exampleInlineFile ''/etc/vsmp.conf'' ''system_memory=4G''] None)
     = (None, None) \<and>
   snd (snd (snd (snd (Reconcile exampleEnv (exampleRequest ''provision''
       ''memoryone-gardenlinux'' None []
       [exampleInlineFile ''/etc/vsmp.conf'' ''system_memory=4G''] None))))) = None \<and>
   linesWith ''system_memory='' (fst (Reconcile exampleEnv (exampleRequest ''provision''
       ''memoryone-gardenlinux'' None []
       [exampleInlineFile ''/etc/vsmp.conf'' ''system_memory=4G''] None)))
     = [''system_memory=4G'']"
  by code_simp

subsection \<open>The form of the provisioning output\<close>

lemma marker_facts:
  assumes "m = ''==BOUNDARY=='' \<or> m = ''--==BOUNDARY==''"
  shows "CHR 0x0A \<notin> set m" and "quote \<notin> set m" and "m \<noteq> []"
    and "sublist ''==BOUNDARY=='' m"
  using assms by (auto simp add: quote_def sublist_Cons_right)

lemma fixed_text_no_boundary:
  "\<not> sublist ''==BOUNDARY=='' scriptPreamble"
  "\<not> sublist ''==BOUNDARY=='' scriptServices"
  "\<not> sublist ''==BOUNDARY=='' ''systemctl enable ''"
  "\<not> sublist ''==BOUNDARY=='' '' && systemctl restart --no-block ''"
  by code_simp+

lemma fixed_text_no_marker:
  assumes "m = ''==BOUNDARY=='' \<or> m = ''--==BOUNDARY==''"
  shows "\<not> sublist m scriptPreamble"
    and "\<not> sublist m scriptServices"
    and "\<not> sublist m ''systemctl enable ''"
    and "\<not> sublist m '' && systemctl restart --no-block ''"
  using fixed_text_no_boundary marker_facts(4) [OF assms]
  by (blast intro: sublist_order.order.trans)+

lemma enableAndRestart_no_marker:
  assumes "m = ''==BOUNDARY=='' \<or> m = ''--==BOUNDARY==''"
    and "\<not> sublist m name"
  shows "sublist m (enableAndRestart name @ rest) \<longleftrightarrow> sublist m rest"
proof -
  have "enableAndRestart name @ rest =
          ''systemctl enable '' @ quote # (name @ quote #
            ('' && systemctl restart --no-block '' @ quote # (name @ quote #
              ([] @ CHR 0x0A # rest))))"
    by (simp add: enableAndRestart_def)
  then show ?thesis
    using assms(2) marker_facts(3) [OF assms(1)]
    by (simp only: sublist_split [OF marker_facts(1) [OF assms(1)]]
        sublist_split [OF marker_facts(2) [OF assms(1)]]
        fixed_text_no_marker [OF assms(1)] sublist_Nil_right simp_thms)
qed

lemma unit_commands_no_marker:
  assumes "m = ''==BOUNDARY=='' \<or> m = ''--==BOUNDARY==''"
    and "\<forall>unit \<in> set units. \<not> sublist m (Unit.Name unit)"
  shows "\<not> sublist m (concat (map (\<lambda>unit. enableAndRestart (Unit.Name unit)) units))"
  using assms(2)
proof (induction units)
  case Nil
  then show ?case
    using marker_facts(3) [OF assms(1)] by simp
next
  case (Cons unit units)
  then show ?case
    by (simp add: enableAndRestart_no_marker [OF assms(1)])
qed

lemma composed_script_no_marker:
  assumes "m = ''==BOUNDARY=='' \<or> m = ''--==BOUNDARY==''"
    and "\<not> sublist m writeFiles"
    and "\<not> sublist m writeUnits"
    and "\<forall>unit \<in> set units. \<not> sublist m (Unit.Name unit)"
  shows "\<not> sublist m (scriptHead writeFiles writeUnits @
           concat (map (\<lambda>unit. enableAndRestart (Unit.Name unit)) units))"
proof -
  let ?commands = "concat (map (\<lambda>unit. enableAndRestart (Unit.Name unit)) units)"
  have preamble: "scriptPreamble = butlast scriptPreamble @ [CHR 0x0A]"
    by (simp add: scriptPreamble_def)
  have services: "scriptServices = CHR 0x0A # butlast (tl scriptServices) @ [CHR 0x0A]"
    by (simp add: scriptServices_def)
  have "scriptHead writeFiles writeUnits @ ?commands =
          butlast scriptPreamble @ CHR 0x0A # (writeFiles @ CHR 0x0A # (writeUnits @ CHR 0x0A #
            (butlast (tl scriptServices) @ CHR 0x0A # ?commands)))"
    unfolding scriptHead_def by (subst preamble, subst services) simp
  moreover have "\<not> sublist m (butlast scriptPreamble @ [CHR 0x0A])"
    using fixed_text_no_marker(1) [OF assms(1)] preamble by simp
  moreover have "\<not> sublist m (CHR 0x0A # butlast (tl scriptServices) @ [CHR 0x0A])"
    using fixed_text_no_marker(2) [OF assms(1)] services by simp
  ultimately show ?thesis
    using assms(2,3) unit_commands_no_marker [OF assms(1,4)] marker_facts(3) [OF assms(1)]
    by (simp add: sublist_split [OF marker_facts(1) [OF assms(1)]]
        sublist_split [OF marker_facts(1) [OF assms(1)], of "[]", simplified]
        sublist_split [OF marker_facts(1) [OF assms(1)], of _ "[]", simplified])
qed

lemma scriptHead_shebang:
  "prefix ''#!/bin/bash\<newline>'' (scriptHead writeFiles writeUnits @ commands)"
  by (simp add: scriptHead_def scriptPreamble_def)

lemma envelopeHeader_first_line:
  "envelopeHeader =
     envelopeFirstLine @
     ''\<newline>MIME-Version: 1.0\<newline>--==BOUNDARY==\<newline>Content-Type: text/x-vsmp; section=vsmp''"
  by (simp add: envelopeHeader_def envelopeFirstLine_def)

text \<open>
  C6, as amended. For a request with purpose Provision whose files were rendered: when
  the type is not the memory variant, the returned bytes are the composed script, they
  begin with the line \<^verbatim>\<open>#!/bin/bash\<close>, and they hold the boundary (\<^verbatim>\<open>==BOUNDARY==\<close>,
  and so the marker \<^verbatim>\<open>--==BOUNDARY==\<close>) only if a rendered fragment or the name of a
  unit holds it; when the type is the memory variant and its configuration was derived,
  the returned bytes begin with the line
  \<^verbatim>\<open>Content-Type: multipart/mixed; boundary="==BOUNDARY=="\<close> and hold the composed script
  as it is between the marker line with the line \<^verbatim>\<open>Content-Type: text/x-shellscript\<close>
  and the closing marker line.
\<close>

theorem Reconcile_provision_output_form:
  assumes "Purpose (Spec osc) = OperatingSystemConfigPurposeProvision"
    and "FilesToDiskScript e (Namespace osc) (Files (Spec osc)) = (writeFiles, None)"
    and "script =
           scriptHead writeFiles (UnitsToDiskScript e (Units (Spec osc))) @
           concat (map (\<lambda>unit. enableAndRestart (Unit.Name unit)) (Units (Spec osc)))"
  shows "(Type (Spec osc) \<noteq> OSTypeMemoryOneGardenLinux e \<longrightarrow>
            Reconcile e osc = (script, [], [], None, None) \<and>
            prefix ''#!/bin/bash\<newline>'' script \<and>
            ((marker = ''==BOUNDARY=='' \<or> marker = ''--==BOUNDARY=='') \<and>
             \<not> sublist marker writeFiles \<and>
             \<not> sublist marker (UnitsToDiskScript e (Units (Spec osc))) \<and>
             (\<forall>unit \<in> set (Units (Spec osc)). \<not> sublist marker (Unit.Name unit))
             \<longrightarrow> \<not> sublist marker script)) \<and>
         (Type (Spec osc) = OSTypeMemoryOneGardenLinux e \<and>
          Configuration e osc = (config, None) \<longrightarrow>
            Reconcile e osc =
              (envelopeFirstLine @
               ''\<newline>MIME-Version: 1.0\<newline>--==BOUNDARY==\<newline>Content-Type: text/x-vsmp; section=vsmp'' @
               systemMemoryLine config @ memTopologyLine config @
               ''\<newline>--==BOUNDARY==\<newline>Content-Type: text/x-shellscript\<newline>'' @
               script @
               ''\<newline>--==BOUNDARY=='',
               [], [], None, None))"
proof (intro conjI impI)
  assume "Type (Spec osc) \<noteq> OSTypeMemoryOneGardenLinux e"
  then show "Reconcile e osc = (script, [], [], None, None)"
    by (simp add: Reconcile_provision [OF assms(1)] handleProvisionOSC_rendered [OF assms(2)]
        assms(3))
next
  show "prefix ''#!/bin/bash\<newline>'' script"
    unfolding assms(3) by (rule scriptHead_shebang)
next
  assume "(marker = ''==BOUNDARY=='' \<or> marker = ''--==BOUNDARY=='') \<and>
          \<not> sublist marker writeFiles \<and>
          \<not> sublist marker (UnitsToDiskScript e (Units (Spec osc))) \<and>
          (\<forall>unit \<in> set (Units (Spec osc)). \<not> sublist marker (Unit.Name unit))"
  then show "\<not> sublist marker script"
    unfolding assms(3) by (intro composed_script_no_marker) simp_all
next
  assume "Type (Spec osc) = OSTypeMemoryOneGardenLinux e \<and>
          Configuration e osc = (config, None)"
  then show "Reconcile e osc =
              (envelopeFirstLine @
               ''\<newline>MIME-Version: 1.0\<newline>--==BOUNDARY==\<newline>Content-Type: text/x-vsmp; section=vsmp'' @
               systemMemoryLine config @ memTopologyLine config @
               ''\<newline>--==BOUNDARY==\<newline>Content-Type: text/x-shellscript\<newline>'' @
               script @
               ''\<newline>--==BOUNDARY=='',
               [], [], None, None)"
    by (simp add: Reconcile_provision [OF assms(1)] handleProvisionOSC_rendered [OF assms(2)]
        wrapIntoMemoryOneHeaderAndFooter_derived assms(3) envelopeHeader_first_line
        envelopeScriptPart_def envelopeFooter_def)
qed

lemma example_fragments_no_marker:
  "\<not> sublist ''--==BOUNDARY=='' ''\<newline>cat << EOF > /etc/a\<newline>hello\<newline>EOF''"
  "\<not> sublist ''--==BOUNDARY=='' (exampleUnitsToDiskScript [exampleUnit ''foo.service''])"
  "\<not> sublist ''--==BOUNDARY=='' ''foo.service''"
  by code_simp+

theorem Reconcile_provision_output_form_witness:
  "Purpose (Spec (exampleRequest ''provision'' ''gardenlinux'' None
       [exampleUnit ''foo.service''] [exampleInlineFile ''/etc/a'' ''hello''] None))
     = OperatingSystemConfigPurposeProvision \<and>
   FilesToDiskScript exampleEnv ''shoot--foo--bar'' [exampleInlineFile ''/etc/a'' ''hello'']
     = (''\<newline>cat << EOF > /etc/a\<newline>hello\<newline>EOF'', None) \<and>
   Type (Spec (exampleRequest ''provision'' ''gardenlinux'' None
       [exampleUnit ''foo.service''] [exampleInlineFile ''/etc/a'' ''hello''] None))
     \<noteq> OSTypeMemoryOneGardenLinux exampleEnv \<and>
   \<not> sublist ''--==BOUNDARY=='' ''\<newline>cat << EOF > /etc/a\<newline>hello\<newline>EOF'' \<and>
   \<not> sublist ''--==BOUNDARY=='' (exampleUnitsToDiskScript [exampleUnit ''foo.service'']) \<and>
   \<not> sublist ''--==BOUNDARY=='' ''foo.service'' \<and>
   prefix ''#!/bin/bash\<newline>'' (fst (Reconcile exampleEnv (exampleRequest ''provision''
       ''gardenlinux'' None [exampleUnit ''foo.service'']
       [exampleInlineFile ''/etc/a'' ''hello''] None))) \<and>
   \<not> sublist ''--==BOUNDARY=='' (fst (Reconcile exampleEnv (exampleRequest ''provision''
       ''gardenlinux'' None [exampleUnit ''foo.service'']
       [exampleInlineFile ''/etc/a'' ''hello''] None))) \<and>
   Type (Spec (exampleRequest ''provision'' ''memoryone-gardenlinux''
       (Some ''systemMemory: 4G'') [exampleUnit ''foo.service''] [] None))
     = OSTypeMemoryOneGardenLinux exampleEnv \<and>
   Configuration exampleEnv (exampleRequest ''provision'' ''memoryone-gardenlinux''
       (Some ''systemMemory: 4G'') [exampleUnit ''foo.service''] [] None)
     = (Some \<lparr>MemoryTopology = None, SystemMemory = Some ''4G''\<rparr>, None) \<and>
   Reconcile exampleEnv (exampleRequest ''provision'' ''memoryone-gardenlinux''
       (Some ''systemMemory: 4G'') [exampleUnit ''foo.service''] [] None)
     = (envelopeFirstLine @
        ''\<newline>MIME-Version: 1.0\<newline>--==BOUNDARY==\<newline>Content-Type: text/x-vsmp; section=vsmp'' @
        ''\<newline>system_memory=4G'' @
        ''\<newline>--==BOUNDARY==\<newline>Content-Type: text/x-shellscript\<newline>'' @
        (scriptHead [] ''\<newline>touch /etc/systemd/system/foo.service'' @
         enableAndRestart ''foo.service'') @
        ''\<newline>--==BOUNDARY=='',
        [], [], None, None)"
proof -
  let ?plain = "exampleRequest ''provision'' ''gardenlinux'' None
      [exampleUnit ''foo.service''] [exampleInlineFile ''/etc/a'' ''hello''] None"
  let ?memory = "exampleRequest ''provision'' ''memoryone-gardenlinux''
      (Some ''systemMemory: 4G'') [exampleUnit ''foo.service''] [] None"
  have purpose: "Purpose (Spec ?plain) = OperatingSystemConfigPurposeProvision"
    "Purpose (Spec ?memory) = OperatingSystemConfigPurposeProvision"
    by (simp_all add: example_defs)
  have rendered:
    "FilesToDiskScript exampleEnv (Namespace ?plain) (Files (Spec ?plain))
       = (''\<newline>cat << EOF > /etc/a\<newline>hello\<newline>EOF'', None)"
    "FilesToDiskScript exampleEnv (Namespace ?memory) (Files (Spec ?memory)) = ([], None)"
    by (simp_all add: example_defs)
  have types: "Type (Spec ?plain) \<noteq> OSTypeMemoryOneGardenLinux exampleEnv"
    "Type (Spec ?memory) = OSTypeMemoryOneGardenLinux exampleEnv"
    by (simp_all add: example_defs)
  have derived: "Configuration exampleEnv ?memory
      = (Some \<lparr>MemoryTopology = None, SystemMemory = Some ''4G''\<rparr>, None)"
    by (simp add: example_defs)
  have fields: "Units (Spec ?plain) = [exampleUnit ''foo.service'']"
    "Units (Spec ?memory) = [exampleUnit ''foo.service'']"
    "UnitsToDiskScript exampleEnv = exampleUnitsToDiskScript"
    "Unit.Name (exampleUnit ''foo.service'') = ''foo.service''"
    by (simp_all add: example_defs)
  let ?script = "scriptHead ''\<newline>cat << EOF > /etc/a\<newline>hello\<newline>EOF''
      (UnitsToDiskScript exampleEnv (Units (Spec ?plain))) @
      concat (map (\<lambda>unit. enableAndRestart (Unit.Name unit)) (Units (Spec ?plain)))"
  note plain = Reconcile_provision_output_form
      [OF purpose(1) rendered(1) refl, where marker = "''--==BOUNDARY==''", THEN conjunct1,
        rule_format, OF types(1)]
  note memory = Reconcile_provision_output_form
      [OF purpose(2) rendered(2) refl, THEN conjunct2, rule_format,
        OF conjI [OF types(2) derived]]
  have returned: "Reconcile exampleEnv ?plain = (?script, [], [], None, None)"
    using plain by (rule conjunct1)
  have shebang: "prefix ''#!/bin/bash\<newline>'' ?script"
    using plain by (rule conjunct2 [THEN conjunct1])
  have "\<not> sublist ''--==BOUNDARY=='' (UnitsToDiskScript exampleEnv (Units (Spec ?plain)))"
    and "\<forall>unit \<in> set (Units (Spec ?plain)). \<not> sublist ''--==BOUNDARY=='' (Unit.Name unit)"
    using example_fragments_no_marker by (simp_all add: fields)
  with plain [THEN conjunct2, THEN conjunct2] example_fragments_no_marker(1)
  have clean: "\<not> sublist ''--==BOUNDARY=='' ?script"
    by blast
  have begins: "prefix ''#!/bin/bash\<newline>'' (fst (Reconcile exampleEnv ?plain))"
    using shebang by (simp only: returned fst_conv)
  have holds_none: "\<not> sublist ''--==BOUNDARY=='' (fst (Reconcile exampleEnv ?plain))"
    using clean by (simp only: returned fst_conv simp_thms)
  have rendered_plain:
    "FilesToDiskScript exampleEnv ''shoot--foo--bar'' [exampleInlineFile ''/etc/a'' ''hello'']
       = (''\<newline>cat << EOF > /etc/a\<newline>hello\<newline>EOF'', None)"
    by (simp add: example_defs)
  have envelope: "Reconcile exampleEnv ?memory
     = (envelopeFirstLine @
        ''\<newline>MIME-Version: 1.0\<newline>--==BOUNDARY==\<newline>Content-Type: text/x-vsmp; section=vsmp'' @
        ''\<newline>system_memory=4G'' @
        ''\<newline>--==BOUNDARY==\<newline>Content-Type: text/x-shellscript\<newline>'' @
        (scriptHead [] ''\<newline>touch /etc/systemd/system/foo.service'' @
         enableAndRestart ''foo.service'') @
        ''\<newline>--==BOUNDARY=='',
        [], [], None, None)"
    using memory by (simp add: systemMemoryLine_def memTopologyLine_def fields)
  show ?thesis
    by (intro conjI purpose(1) rendered_plain types derived example_fragments_no_marker
        begins holds_none envelope)
qed

text \<open>
  C6, as stated, fails twice. A request of another type whose file cannot be rendered
  gets the empty byte sequence, which does not begin with \<^verbatim>\<open>#!/bin/bash\<close>. A request
  of another type with a file that holds the line \<^verbatim>\<open>--==BOUNDARY==\<close> gets a script that
  holds the boundary marker.
\<close>

theorem provision_output_form_counterexample:
  "Purpose (Spec (exampleRequest ''provision'' ''gardenlinux'' None []
       [exampleSecretFile ''/etc/a''] None))
     = OperatingSystemConfigPurposeProvision \<and>
   Type (Spec (exampleRequest ''provision'' ''gardenlinux'' None []
       [exampleSecretFile ''/etc/a''] None))
     \<noteq> OSTypeMemoryOneGardenLinux exampleEnv \<and>
   fst (Reconcile exampleEnv (exampleRequest ''provision'' ''gardenlinux'' None []
       [exampleSecretFile ''/etc/a''] None)) = [] \<and>
   \<not> prefix ''#!/bin/bash'' (fst (Reconcile exampleEnv (exampleRequest ''provision''
       ''gardenlinux'' None [] [exampleSecretFile ''/etc/a''] None))) \<and>
   Purpose (Spec (exampleRequest ''provision'' ''gardenlinux'' None []
       [exampleInlineFile ''/etc/part.txt'' ''--==BOUNDARY==''] None))
     = OperatingSystemConfigPurposeProvision \<and>
   Type (Spec (exampleRequest ''provision'' ''gardenlinux'' None []
       [exampleInlineFile ''/etc/part.txt'' ''--==BOUNDARY==''] None))
     \<noteq> OSTypeMemoryOneGardenLinux exampleEnv \<and>
   snd (snd (snd (snd (Reconcile exampleEnv (exampleRequest ''provision'' ''gardenlinux''
       None [] [exampleInlineFile ''/etc/part.txt'' ''--==BOUNDARY==''] None))))) = None \<and>
   sublist ''--==BOUNDARY=='' (fst (Reconcile exampleEnv (exampleRequest ''provision''
       ''gardenlinux'' None [] [exampleInlineFile ''/etc/part.txt'' ''--==BOUNDARY=='']
       None)))"
  by code_simp

end
